theory Spec2Isabelle
  imports Main
begin

section \<open>The connected-session screen of searchit\<close>

text \<open>
  The component \<open>SearchActions\<close> of \<open>app/search-actions.tsx\<close> keeps six pieces of hook
  state and talks to a Bluetooth peripheral through four callbacks: the RSSI polling
  interval, the notification monitor, the two press handlers and their fallback timeouts.
  The embedding keeps the hook state in a record, together with a log of what the
  callbacks did to the outside (alerts shown, characteristic writes issued, timeouts
  scheduled, interval and monitor registered) and the press handlers that are suspended
  at their \<open>await\<close>. Each callback is a function from the state before to the state
  after; what the transport answered (the RSSI read, the outcome of a write, the
  notification payload) is an argument of the callback that receives it.

  RSSI readings are whole dBm values, so \<open>number | null\<close> is \<open>int option\<close>.
\<close>

subsection \<open>Signal strength presentation\<close>

definition getProximity :: "int option \<Rightarrow> string" where
  "getProximity rssi =
     (case rssi of
        None \<Rightarrow> ''''
      | Some r \<Rightarrow>
          if r \<ge> -55 then ''Super Near''
          else if r \<ge> -65 then ''Near''
          else if r \<ge> -80 then ''Far''
          else ''Super Far'')"

definition getSignalIcon :: "int option \<Rightarrow> string" where
  "getSignalIcon rssi =
     (case rssi of
        None \<Rightarrow> ''signal-off''
      | Some r \<Rightarrow>
          if r \<ge> -55 then ''signal-cellular-3''
          else if r \<ge> -65 then ''signal-cellular-2''
          else if r \<ge> -80 then ''signal-cellular-1''
          else ''signal-cellular-outline'')"

definition proximityLabels :: "string list" where
  "proximityLabels = [''Super Near'', ''Near'', ''Far'', ''Super Far'']"

subsection \<open>Hook state and the outside world\<close>

datatype actuator = Buzzer | LED

datatype device = Device string

datatype error = TransportError

datatype rssi_read = ReadFailed | ReadValue "int option"

datatype write_result = WriteOk | WriteFailed

datatype characteristic = Characteristic (val: "string option")

record props =
  connectedDevice :: "device option"
  toBase64 :: "string \<Rightarrow> string"
  fromBase64 :: "string \<Rightarrow> string"

record world =
  currentRssi :: "int option"
  disconnectModalVisible :: bool
  buzzerState :: bool
  buzzerLoading :: bool
  ledState :: bool
  ledLoading :: bool
  alerts :: "(string \<times> string) list"
  writes :: "(string \<times> string \<times> string) list"
  timeouts :: "actuator list"
  buzzerAwaiting :: "bool list"
  ledAwaiting :: "bool list"
  pollingInterval :: bool
  monitorSubscription :: bool
  onBackCalls :: nat

definition SERVICE_UUID :: string where
  "SERVICE_UUID = ''6E400001-B5A3-F393-E0A9-E50E24DCCA9E''"

definition CHARACTERISTIC_UUID :: string where
  "CHARACTERISTIC_UUID = ''6E400002-B5A3-F393-E0A9-E50E24DCCA9E''"

definition WRITE_CHARACTERISTIC_UUID :: string where
  "WRITE_CHARACTERISTIC_UUID = ''6E400003-B5A3-F393-E0A9-E50E24DCCA9E''"

text \<open>The state of a freshly rendered component, before any effect has run.\<close>

definition initial :: "int option \<Rightarrow> world" where
  "initial rssi =
     \<lparr> currentRssi = rssi, disconnectModalVisible = False,
       buzzerState = False, buzzerLoading = False,
       ledState = False, ledLoading = False,
       alerts = [], writes = [], timeouts = [],
       buzzerAwaiting = [], ledAwaiting = [],
       pollingInterval = False, monitorSubscription = False, onBackCalls = 0 \<rparr>"

subsection \<open>Session effects: RSSI polling, Bluetooth switch, notification monitor\<close>

text \<open>
  The polling effect registers an interval when a device is connected, and its cleanup
  clears that interval. The interval's callback reads the RSSI: a numeric reading is
  stored, and a failed read, a null reading or a reading below -90 makes the disconnect
  modal visible.
\<close>

definition pollingEffect :: "props \<Rightarrow> world \<Rightarrow> world" where
  "pollingEffect p w =
     (case connectedDevice p of
        None \<Rightarrow> w
      | Some d \<Rightarrow> w\<lparr>pollingInterval := True\<rparr>)"

definition pollingCleanup :: "props \<Rightarrow> world \<Rightarrow> world" where
  "pollingCleanup p w =
     (case connectedDevice p of
        None \<Rightarrow> w
      | Some d \<Rightarrow> w\<lparr>pollingInterval := False\<rparr>)"

fun pollTick :: "rssi_read \<Rightarrow> world \<Rightarrow> world" where
  "pollTick ReadFailed w = w\<lparr>disconnectModalVisible := True\<rparr>"
| "pollTick (ReadValue None) w = w\<lparr>disconnectModalVisible := True\<rparr>"
| "pollTick (ReadValue (Some rssiValue)) w =
     (let w1 = w\<lparr>currentRssi := Some rssiValue\<rparr>
      in if rssiValue < -90 then w1\<lparr>disconnectModalVisible := True\<rparr> else w1)"

definition bluetoothOffEffect :: "bool \<Rightarrow> world \<Rightarrow> world" where
  "bluetoothOffEffect bluetoothOff w =
     (if bluetoothOff then w\<lparr>disconnectModalVisible := True\<rparr> else w)"

text \<open>
  The notification effect subscribes to the notify characteristic when a device is
  connected; a subscription that throws is logged and nothing else happens. The effect
  returns no cleanup. The monitor's callback ignores an error, a missing characteristic
  and a null or empty value; otherwise it decodes the base64 value and compares the text
  with four tokens.
\<close>

datatype monitor_result = MonitorOk | MonitorThrew

definition notificationEffect :: "props \<Rightarrow> monitor_result \<Rightarrow> world \<Rightarrow> world" where
  "notificationEffect p r w =
     (case connectedDevice p of
        None \<Rightarrow> w
      | Some d \<Rightarrow> (case r of MonitorOk \<Rightarrow> w\<lparr>monitorSubscription := True\<rparr> | MonitorThrew \<Rightarrow> w))"

definition onResponse :: "string \<Rightarrow> world \<Rightarrow> world" where
  "onResponse response w =
     (if response = ''BUZZER_ON'' then w\<lparr>buzzerState := True, buzzerLoading := False\<rparr>
      else if response = ''BUZZER_OFF'' then w\<lparr>buzzerState := False, buzzerLoading := False\<rparr>
      else if response = ''LED_ON'' then w\<lparr>ledState := True, ledLoading := False\<rparr>
      else if response = ''LED_OFF'' then w\<lparr>ledState := False, ledLoading := False\<rparr>
      else w)"

definition monitorCallback ::
    "props \<Rightarrow> error option \<Rightarrow> characteristic option \<Rightarrow> world \<Rightarrow> world" where
  "monitorCallback p err chr w =
     (case err of
        Some e \<Rightarrow> w
      | None \<Rightarrow>
          (case chr of
             None \<Rightarrow> w
           | Some c \<Rightarrow>
               (case val c of
                  None \<Rightarrow> w
                | Some v \<Rightarrow> if v = [] then w else onResponse (fromBase64 p v) w)))"

text \<open>
  Mounting runs the effects in the order of the source; unmounting runs the cleanups the
  effects returned, which is the polling cleanup alone.
\<close>

definition mount :: "props \<Rightarrow> bool \<Rightarrow> monitor_result \<Rightarrow> world \<Rightarrow> world" where
  "mount p bluetoothOff r w =
     notificationEffect p r (bluetoothOffEffect bluetoothOff (pollingEffect p w))"

definition unmount :: "props \<Rightarrow> world \<Rightarrow> world" where
  "unmount p w = pollingCleanup p w"

subsection \<open>Toggle commands\<close>

text \<open>
  \<open>sendToggleCommand\<close> shows an alert and returns when no device is connected; otherwise
  it writes the base64 of the command to the write characteristic and awaits the
  transport, whose failure is the function's failure. The write is logged when it is
  issued. \<open>sendToggleCommand_call\<close> is the call up to the point where it returns or
  awaits; \<open>sendToggleCommand\<close> is the call together with the transport's answer.
\<close>

datatype call = Returned | AwaitingWrite

definition sendToggleCommand_call :: "props \<Rightarrow> string \<Rightarrow> world \<Rightarrow> world \<times> call" where
  "sendToggleCommand_call p command w =
     (case connectedDevice p of
        None \<Rightarrow> (w\<lparr>alerts := alerts w @ [(''Error'', ''Device not connected'')]\<rparr>, Returned)
      | Some d \<Rightarrow>
          (let base64Command = toBase64 p command
           in (w\<lparr>writes := writes w @ [(SERVICE_UUID, WRITE_CHARACTERISTIC_UUID, base64Command)]\<rparr>,
               AwaitingWrite)))"

fun settled :: "call \<Rightarrow> write_result \<Rightarrow> error + unit" where
  "settled Returned r = Inr ()"
| "settled AwaitingWrite WriteOk = Inr ()"
| "settled AwaitingWrite WriteFailed = Inl TransportError"

definition sendToggleCommand ::
    "props \<Rightarrow> write_result \<Rightarrow> string \<Rightarrow> world \<Rightarrow> world \<times> (error + unit)" where
  "sendToggleCommand p r command w =
     (case sendToggleCommand_call p command w of (w1, c) \<Rightarrow> (w1, settled c r))"

text \<open>
  A press handler sets the loading flag and flips the state, then calls
  \<open>sendToggleCommand\<close> and awaits it. When a write was issued the handler stays suspended,
  with the \<open>newBuzzerState\<close> (or \<open>newLedState\<close>) its closure holds, until the transport
  answers; other callbacks run in between. When nothing was issued there is nothing to
  wait for and the handler runs on to its end. The rest of the handler is the \<open>try\<close>
  branch that schedules the fallback timeout, or the \<open>catch\<close> branch.
\<close>

definition handleBuzzerPress_resume :: "bool \<Rightarrow> error + unit \<Rightarrow> world \<Rightarrow> world" where
  "handleBuzzerPress_resume newBuzzerState res w =
     (case res of
        Inr u \<Rightarrow> w\<lparr>timeouts := timeouts w @ [Buzzer]\<rparr>
      | Inl e \<Rightarrow>
          w\<lparr>buzzerLoading := False, buzzerState := \<not> newBuzzerState,
            alerts := alerts w @ [(''Error'', ''Failed to control buzzer'')]\<rparr>)"

definition handleBuzzerPress :: "props \<Rightarrow> world \<Rightarrow> world" where
  "handleBuzzerPress p w =
     (let newBuzzerState = \<not> buzzerState w;
          w1 = w\<lparr>buzzerLoading := True, buzzerState := newBuzzerState\<rparr>
      in case sendToggleCommand_call p ''BUZZ_TOGGLE'' w1 of
           (w2, Returned) \<Rightarrow> handleBuzzerPress_resume newBuzzerState (Inr ()) w2
         | (w2, AwaitingWrite) \<Rightarrow> w2\<lparr>buzzerAwaiting := buzzerAwaiting w2 @ [newBuzzerState]\<rparr>)"

definition handleLightPress_resume :: "bool \<Rightarrow> error + unit \<Rightarrow> world \<Rightarrow> world" where
  "handleLightPress_resume newLedState res w =
     (case res of
        Inr u \<Rightarrow> w\<lparr>timeouts := timeouts w @ [LED]\<rparr>
      | Inl e \<Rightarrow>
          w\<lparr>ledLoading := False, ledState := \<not> newLedState,
            alerts := alerts w @ [(''Error'', ''Failed to control LED'')]\<rparr>)"

definition handleLightPress :: "props \<Rightarrow> world \<Rightarrow> world" where
  "handleLightPress p w =
     (let newLedState = \<not> ledState w;
          w1 = w\<lparr>ledLoading := True, ledState := newLedState\<rparr>
      in case sendToggleCommand_call p ''LED_TOGGLE'' w1 of
           (w2, Returned) \<Rightarrow> handleLightPress_resume newLedState (Inr ()) w2
         | (w2, AwaitingWrite) \<Rightarrow> w2\<lparr>ledAwaiting := ledAwaiting w2 @ [newLedState]\<rparr>)"

text \<open>
  The transport answers the write of the \<open>n\<close>-th suspended handler of an actuator: the
  handler leaves the list and runs its remaining part. An answer for a handler that is
  not there does nothing.
\<close>

definition dropAt :: "nat \<Rightarrow> 'a list \<Rightarrow> 'a list" where
  "dropAt n xs = take n xs @ drop (Suc n) xs"

fun writeSettled :: "actuator \<Rightarrow> nat \<Rightarrow> write_result \<Rightarrow> world \<Rightarrow> world" where
  "writeSettled Buzzer n r w =
     (if n < length (buzzerAwaiting w)
      then handleBuzzerPress_resume (buzzerAwaiting w ! n) (settled AwaitingWrite r)
             (w\<lparr>buzzerAwaiting := dropAt n (buzzerAwaiting w)\<rparr>)
      else w)"
| "writeSettled LED n r w =
     (if n < length (ledAwaiting w)
      then handleLightPress_resume (ledAwaiting w ! n) (settled AwaitingWrite r)
             (w\<lparr>ledAwaiting := dropAt n (ledAwaiting w)\<rparr>)
      else w)"

text \<open>The callback of a fallback timeout, and the timeout leaving the schedule as it runs.\<close>

fun fallback :: "actuator \<Rightarrow> world \<Rightarrow> world" where
  "fallback Buzzer w = w\<lparr>buzzerLoading := False\<rparr>"
| "fallback LED w = w\<lparr>ledLoading := False\<rparr>"

definition fireFallback :: "actuator \<Rightarrow> world \<Rightarrow> world" where
  "fireFallback a w = fallback a (w\<lparr>timeouts := remove1 a (timeouts w)\<rparr>)"

text \<open>
  The two controls carry \<open>disabled={buzzerLoading}\<close> and \<open>disabled={ledLoading}\<close>: a
  press on a disabled control does not reach its handler.
\<close>

definition pressBuzzer :: "props \<Rightarrow> world \<Rightarrow> world" where
  "pressBuzzer p w = (if buzzerLoading w then w else handleBuzzerPress p w)"

definition pressLight :: "props \<Rightarrow> world \<Rightarrow> world" where
  "pressLight p w = (if ledLoading w then w else handleLightPress p w)"

definition handleDisconnectModalClose :: "world \<Rightarrow> world" where
  "handleDisconnectModalClose w =
     w\<lparr>disconnectModalVisible := False, buzzerState := False, ledState := False,
       onBackCalls := Suc (onBackCalls w)\<rparr>"

subsection \<open>The revision without loading flags\<close>

text \<open>
  A second copy of the component (\<open>src/unnamed/part_001\<close>) has no loading flags and no
  notification monitor. Its \<open>sendToggleCommand\<close> wraps the write in a \<open>try\<close> whose
  \<open>catch\<close> is empty, and its press handler flips the state and calls
  \<open>sendToggleCommand\<close> without awaiting it, so the handler is over when the call is made
  and the transport's answer changes nothing.
\<close>

definition sendToggleCommand_part_001 ::
    "props \<Rightarrow> write_result \<Rightarrow> string \<Rightarrow> world \<Rightarrow> world \<times> (error + unit)" where
  "sendToggleCommand_part_001 p r command w =
     (case connectedDevice p of
        None \<Rightarrow> (w\<lparr>alerts := alerts w @ [(''Error'', ''Device not connected'')]\<rparr>, Inr ())
      | Some d \<Rightarrow>
          (let base64Command = toBase64 p command;
               w1 = w\<lparr>writes := writes w @ [(SERVICE_UUID, WRITE_CHARACTERISTIC_UUID, base64Command)]\<rparr>
           in case r of
                WriteOk \<Rightarrow> (w1, Inr ())
              | WriteFailed \<Rightarrow> (w1, Inr ())))"

definition handleBuzzerPress_part_001 :: "props \<Rightarrow> write_result \<Rightarrow> world \<Rightarrow> world" where
  "handleBuzzerPress_part_001 p r w =
     (let newBuzzerState = \<not> buzzerState w;
          w1 = w\<lparr>buzzerState := newBuzzerState\<rparr>
      in fst (sendToggleCommand_part_001 p r ''BUZZ_TOGGLE'' w1))"

definition handleLightPress_part_001 :: "props \<Rightarrow> write_result \<Rightarrow> world \<Rightarrow> world" where
  "handleLightPress_part_001 p r w =
     (let newLedState = \<not> ledState w;
          w1 = w\<lparr>ledState := newLedState\<rparr>
      in fst (sendToggleCommand_part_001 p r ''LED_TOGGLE'' w1))"

subsection \<open>Runs of a session\<close>

text \<open>
  A run is the sequence of callbacks the runtime delivers to the mounted component, each
  with what the transport or the user supplied.
\<close>

datatype event =
    PollTick rssi_read
  | Notification "error option" "characteristic option"
  | BuzzerPressed
  | LightPressed
  | WriteSettled actuator nat write_result
  | FallbackFired actuator
  | BluetoothOffChanged bool
  | DisconnectModalClosed

fun step :: "props \<Rightarrow> event \<Rightarrow> world \<Rightarrow> world" where
  "step p (PollTick r) w = pollTick r w"
| "step p (Notification err chr) w = monitorCallback p err chr w"
| "step p BuzzerPressed w = pressBuzzer p w"
| "step p LightPressed w = pressLight p w"
| "step p (WriteSettled a n r) w = writeSettled a n r w"
| "step p (FallbackFired a) w = fireFallback a w"
| "step p (BluetoothOffChanged b) w = bluetoothOffEffect b w"
| "step p DisconnectModalClosed w = handleDisconnectModalClose w"

fun run :: "props \<Rightarrow> event list \<Rightarrow> world \<Rightarrow> world" where
  "run p [] w = w"
| "run p (e # es) w = run p es (step p e w)"

text \<open>
  The screen has no health flag of its own: the connection counts as healthy while the
  disconnect modal is hidden, and the connection is reported lost when the modal goes
  from hidden to visible.
\<close>

definition connectionHealthy :: "world \<Rightarrow> bool" where
  "connectionHealthy w = (\<not> disconnectModalVisible w)"

fun connectionLostCount :: "props \<Rightarrow> event list \<Rightarrow> world \<Rightarrow> nat" where
  "connectionLostCount p [] w = 0"
| "connectionLostCount p (e # es) w =
     (if connectionHealthy w \<and> \<not> connectionHealthy (step p e w) then 1 else 0)
       + connectionLostCount p es (step p e w)"

fun isBadRead :: "rssi_read \<Rightarrow> bool" where
  "isBadRead ReadFailed = True"
| "isBadRead (ReadValue None) = True"
| "isBadRead (ReadValue (Some n)) = (n < -90)"

fun actuatorState :: "actuator \<Rightarrow> world \<Rightarrow> bool" where
  "actuatorState Buzzer w = buzzerState w"
| "actuatorState LED w = ledState w"

fun pending :: "actuator \<Rightarrow> world \<Rightarrow> bool" where
  "pending Buzzer w = buzzerLoading w"
| "pending LED w = ledLoading w"

fun awaiting :: "actuator \<Rightarrow> world \<Rightarrow> bool list" where
  "awaiting Buzzer w = buzzerAwaiting w"
| "awaiting LED w = ledAwaiting w"

fun handlePress :: "actuator \<Rightarrow> props \<Rightarrow> world \<Rightarrow> world" where
  "handlePress Buzzer p w = handleBuzzerPress p w"
| "handlePress LED p w = handleLightPress p w"

fun press :: "actuator \<Rightarrow> props \<Rightarrow> world \<Rightarrow> world" where
  "press Buzzer p w = pressBuzzer p w"
| "press LED p w = pressLight p w"

fun pressed :: "actuator \<Rightarrow> event" where
  "pressed Buzzer = BuzzerPressed"
| "pressed LED = LightPressed"

fun toggleCommand :: "actuator \<Rightarrow> string" where
  "toggleCommand Buzzer = ''BUZZ_TOGGLE''"
| "toggleCommand LED = ''LED_TOGGLE''"

fun confirmation :: "actuator \<Rightarrow> bool \<Rightarrow> string" where
  "confirmation Buzzer True = ''BUZZER_ON''"
| "confirmation Buzzer False = ''BUZZER_OFF''"
| "confirmation LED True = ''LED_ON''"
| "confirmation LED False = ''LED_OFF''"

fun failureMessage :: "actuator \<Rightarrow> string" where
  "failureMessage Buzzer = ''Failed to control buzzer''"
| "failureMessage LED = ''Failed to control LED''"

definition notificationTokens :: "string list" where
  "notificationTokens = [''BUZZER_ON'', ''BUZZER_OFF'', ''LED_ON'', ''LED_OFF'']"

text \<open>
  The text the monitor callback compares with the tokens, when it gets that far, and the
  writes of one actuator's command among the writes issued.
\<close>

definition notified :: "props \<Rightarrow> error option \<Rightarrow> characteristic option \<Rightarrow> string option" where
  "notified p err chr =
     (case err of
        Some e \<Rightarrow> None
      | None \<Rightarrow>
          (case chr of
             None \<Rightarrow> None
           | Some c \<Rightarrow>
               (case val c of
                  None \<Rightarrow> None
                | Some v \<Rightarrow> if v = [] then None else Some (fromBase64 p v))))"

definition toggleWrites :: "props \<Rightarrow> actuator \<Rightarrow> world \<Rightarrow> (string \<times> string \<times> string) list" where
  "toggleWrites p a w = filter (\<lambda>x. snd (snd x) = toBase64 p (toggleCommand a)) (writes w)"

subsection \<open>Base64\<close>

text \<open>
  \<open>Buffer\<close> comes from the buffer package, outside this repository, and the callbacks
  take its two conversions as the parameters \<open>toBase64\<close> and \<open>fromBase64\<close>. For
  evaluation the conversions are the base64 coding as that package does it. Encoding
  takes three bytes to four characters and pads with \<open>=\<close>. Decoding reads up to the
  first \<open>=\<close>, skips every character outside the alphabet (\<open>-\<close> and \<open>_\<close> count as
  \<open>+\<close> and \<open>/\<close>), takes four characters to three bytes, and a last group of three or two
  characters to two bytes or one. A text is a list of bytes; for the comparison with the
  tokens, which are ASCII, decoding the bytes as UTF-8 makes no difference.
\<close>

definition base64Alphabet :: string where
  "base64Alphabet = ''ABCDEFGHIJKLMNOPQRSTUVWXYZabcdefghijklmnopqrstuvwxyz0123456789+/''"

definition base64Char :: "nat \<Rightarrow> char" where
  "base64Char n = base64Alphabet ! (n mod 64)"

fun encodeBytes :: "nat list \<Rightarrow> string" where
  "encodeBytes (a # b # c # rest) =
     [base64Char (a div 4), base64Char ((a mod 4) * 16 + b div 16),
      base64Char ((b mod 16) * 4 + c div 64), base64Char (c mod 64)] @ encodeBytes rest"
| "encodeBytes [a, b] =
     [base64Char (a div 4), base64Char ((a mod 4) * 16 + b div 16),
      base64Char ((b mod 16) * 4), CHR ''='']"
| "encodeBytes [a] = [base64Char (a div 4), base64Char ((a mod 4) * 16), CHR ''='', CHR ''='']"
| "encodeBytes [] = []"

definition base64Encode :: "string \<Rightarrow> string" where
  "base64Encode s = encodeBytes (map of_char s)"

definition sextet :: "char \<Rightarrow> nat option" where
  "sextet c =
     (if c = CHR ''-'' then Some 62
      else if c = CHR ''_'' then Some 63
      else map_of (zip base64Alphabet [0..<64]) c)"

fun decodeSextets :: "nat list \<Rightarrow> nat list" where
  "decodeSextets (a # b # c # d # rest) =
     [a * 4 + b div 16, (b mod 16) * 16 + c div 4, (c mod 4) * 64 + d] @ decodeSextets rest"
| "decodeSextets [a, b, c] = [a * 4 + b div 16, (b mod 16) * 16 + c div 4]"
| "decodeSextets [a, b] = [a * 4 + b div 16]"
| "decodeSextets [a] = []"
| "decodeSextets [] = []"

definition base64Decode :: "string \<Rightarrow> string" where
  "base64Decode s =
     map char_of (decodeSextets (List.map_filter sextet (takeWhile (\<lambda>c. c \<noteq> CHR ''='') s)))"

definition connected :: props where
  "connected = \<lparr> connectedDevice = Some (Device ''tag''), toBase64 = base64Encode, fromBase64 = base64Decode \<rparr>"

definition unconnected :: props where
  "unconnected = \<lparr> connectedDevice = None, toBase64 = base64Encode, fromBase64 = base64Decode \<rparr>"

subsection \<open>Classes of events\<close>

text \<open>
  An event keeps an actuator pending and its state in place when it is neither a
  notification, nor that actuator's fallback timeout, nor a rejected write of that
  actuator, nor the closing of the disconnect modal (which resets both actuator states).

  An event may clear an actuator's pending flag when it is a notification carrying one of
  the actuator's two tokens, the actuator's fallback timeout, or a rejected write of the
  actuator.

  After a notification has confirmed the value \<open>b\<close> for an actuator, an event leaves that
  confirmation undisturbed unless it is a press on the actuator's control, a notification
  carrying the opposite token, a rejected write of the actuator, or, when \<open>b\<close> is on, the
  closing of the disconnect modal.
\<close>

fun keepsPending :: "actuator \<Rightarrow> event \<Rightarrow> bool" where
  "keepsPending a (PollTick r) = True"
| "keepsPending a (Notification err chr) = False"
| "keepsPending a BuzzerPressed = True"
| "keepsPending a LightPressed = True"
| "keepsPending a (WriteSettled b n r) = (a \<noteq> b \<or> r = WriteOk)"
| "keepsPending a (FallbackFired b) = (a \<noteq> b)"
| "keepsPending a (BluetoothOffChanged b) = True"
| "keepsPending a DisconnectModalClosed = False"

fun clearsPending :: "props \<Rightarrow> actuator \<Rightarrow> event \<Rightarrow> bool" where
  "clearsPending p a (Notification err chr) =
     (notified p err chr = Some (confirmation a True) \<or> notified p err chr = Some (confirmation a False))"
| "clearsPending p a (WriteSettled b n r) = (a = b \<and> r = WriteFailed)"
| "clearsPending p a (FallbackFired b) = (a = b)"
| "clearsPending p a (PollTick r) = False"
| "clearsPending p a BuzzerPressed = False"
| "clearsPending p a LightPressed = False"
| "clearsPending p a (BluetoothOffChanged b) = False"
| "clearsPending p a DisconnectModalClosed = False"

fun undisturbed :: "props \<Rightarrow> actuator \<Rightarrow> bool \<Rightarrow> event \<Rightarrow> bool" where
  "undisturbed p a b (PollTick r) = True"
| "undisturbed p a b (Notification err chr) = (notified p err chr \<noteq> Some (confirmation a (\<not> b)))"
| "undisturbed p a b BuzzerPressed = (a \<noteq> Buzzer)"
| "undisturbed p a b LightPressed = (a \<noteq> LED)"
| "undisturbed p a b (WriteSettled c n r) = (a \<noteq> c \<or> r = WriteOk)"
| "undisturbed p a b (FallbackFired c) = True"
| "undisturbed p a b (BluetoothOffChanged x) = True"
| "undisturbed p a b DisconnectModalClosed = (\<not> b)"

section \<open>Proximity labels\<close>

text \<open>
  Claim C4. For every numeric RSSI value \<open>r\<close> the proximity label is one of the four
  fixed labels, chosen by the thresholds -55, -65 and -80, each inclusive on the side of
  the stronger signal: at least -55 is "Super Near" (so -55 itself is), otherwise at least
  -65 is "Near", otherwise at least -80 is "Far", otherwise "Super Far".
\<close>

theorem getProximity_thresholds:
  "getProximity (Some r) =
     (if -55 \<le> r then ''Super Near''
      else if -65 \<le> r then ''Near''
      else if -80 \<le> r then ''Far''
      else ''Super Far'')
   \<and> getProximity (Some r) \<in> set proximityLabels
   \<and> distinct proximityLabels
   \<and> getProximity (Some (-55)) = ''Super Near''
   \<and> getProximity (Some (-56)) = ''Near''
   \<and> getProximity (Some (-65)) = ''Near''
   \<and> getProximity (Some (-66)) = ''Far''
   \<and> getProximity (Some (-80)) = ''Far''
   \<and> getProximity (Some (-81)) = ''Super Far''"
  by (simp add: getProximity_def proximityLabels_def)

text \<open>
  Claim C10. For an absent RSSI the proximity label is the empty string, which is none of
  the four labels, and the signal icon is "signal-off"; whenever the proximity label is
  one of the four labels the input was a number.
\<close>

theorem getProximity_absent:
  "getProximity None = ''''
   \<and> getProximity None \<notin> set proximityLabels
   \<and> getSignalIcon None = ''signal-off''
   \<and> (getProximity x \<in> set proximityLabels) = (x \<noteq> None)"
  by (cases x) (simp_all add: getProximity_def getSignalIcon_def proximityLabels_def)

section \<open>What each callback leaves alone\<close>

lemma run_append: "run p (xs @ ys) w = run p ys (run p xs w)"
  by (induction xs arbitrary: w) simp_all

lemma pollTick_modal:
  "disconnectModalVisible (pollTick r w) = (disconnectModalVisible w \<or> isBadRead r)"
  by (induction r rule: isBadRead.induct) (simp_all add: Let_def)

lemma pollTick_frame:
  "buzzerState (pollTick r w) = buzzerState w"
  "buzzerLoading (pollTick r w) = buzzerLoading w"
  "ledState (pollTick r w) = ledState w"
  "ledLoading (pollTick r w) = ledLoading w"
  "writes (pollTick r w) = writes w"
  by (induction r rule: isBadRead.induct, simp_all add: Let_def)+

lemma fireFallback_frame:
  "disconnectModalVisible (fireFallback a w) = disconnectModalVisible w"
  "buzzerState (fireFallback a w) = buzzerState w"
  "ledState (fireFallback a w) = ledState w"
  "buzzerLoading (fireFallback a w) = (a \<noteq> Buzzer \<and> buzzerLoading w)"
  "ledLoading (fireFallback a w) = (a \<noteq> LED \<and> ledLoading w)"
  "writes (fireFallback a w) = writes w"
  by (cases a, simp_all add: fireFallback_def)+

lemma fireFallback_pending:
  "\<not> pending a (fireFallback a w)"
  "actuatorState b (fireFallback a w) = actuatorState b w"
  by (cases a; cases b; simp add: fireFallback_frame)+

lemma monitorCallback_notified:
  "monitorCallback p err chr w = (case notified p err chr of None \<Rightarrow> w | Some t \<Rightarrow> onResponse t w)"
  by (simp add: monitorCallback_def notified_def split: option.splits)

lemma monitorCallback_frame:
  "disconnectModalVisible (monitorCallback p err chr w) = disconnectModalVisible w"
  "writes (monitorCallback p err chr w) = writes w"
  by (simp_all add: monitorCallback_def onResponse_def split: option.splits)

lemma handleBuzzerPress_frame:
  "disconnectModalVisible (handleBuzzerPress p w) = disconnectModalVisible w"
  "ledState (handleBuzzerPress p w) = ledState w"
  "ledLoading (handleBuzzerPress p w) = ledLoading w"
  "buzzerLoading (handleBuzzerPress p w)"
  "buzzerState (handleBuzzerPress p w) = (\<not> buzzerState w)"
  by (simp_all add: handleBuzzerPress_def handleBuzzerPress_resume_def sendToggleCommand_call_def
        Let_def split: option.splits)

lemma handleLightPress_frame:
  "disconnectModalVisible (handleLightPress p w) = disconnectModalVisible w"
  "buzzerState (handleLightPress p w) = buzzerState w"
  "buzzerLoading (handleLightPress p w) = buzzerLoading w"
  "ledLoading (handleLightPress p w)"
  "ledState (handleLightPress p w) = (\<not> ledState w)"
  by (simp_all add: handleLightPress_def handleLightPress_resume_def sendToggleCommand_call_def
        Let_def split: option.splits)

lemma handlePress_writes:
  "writes (handlePress a p w) =
     (case connectedDevice p of
        None \<Rightarrow> writes w
      | Some d \<Rightarrow> writes w @ [(SERVICE_UUID, WRITE_CHARACTERISTIC_UUID, toBase64 p (toggleCommand a))])"
  by (cases a)
     (simp_all add: handleBuzzerPress_def handleLightPress_def handleBuzzerPress_resume_def
        handleLightPress_resume_def sendToggleCommand_call_def Let_def split: option.splits)

lemma writeSettled_frame:
  "disconnectModalVisible (writeSettled a n r w) = disconnectModalVisible w"
  "writes (writeSettled a n r w) = writes w"
  "a \<noteq> Buzzer \<Longrightarrow> buzzerState (writeSettled a n r w) = buzzerState w"
  "a \<noteq> Buzzer \<Longrightarrow> buzzerLoading (writeSettled a n r w) = buzzerLoading w"
  "a \<noteq> LED \<Longrightarrow> ledState (writeSettled a n r w) = ledState w"
  "a \<noteq> LED \<Longrightarrow> ledLoading (writeSettled a n r w) = ledLoading w"
  by (cases a; cases r;
      simp add: handleBuzzerPress_resume_def handleLightPress_resume_def)+

lemma writeSettled_ok:
  "actuatorState b (writeSettled a n WriteOk w) = actuatorState b w"
  "pending b (writeSettled a n WriteOk w) = pending b w"
  by (cases a; cases b;
      simp add: handleBuzzerPress_resume_def handleLightPress_resume_def)+

lemma bluetoothOffEffect_frame:
  "disconnectModalVisible (bluetoothOffEffect b w) = (disconnectModalVisible w \<or> b)"
  "buzzerState (bluetoothOffEffect b w) = buzzerState w"
  "buzzerLoading (bluetoothOffEffect b w) = buzzerLoading w"
  "ledState (bluetoothOffEffect b w) = ledState w"
  "ledLoading (bluetoothOffEffect b w) = ledLoading w"
  "writes (bluetoothOffEffect b w) = writes w"
  by (simp_all add: bluetoothOffEffect_def)

section \<open>Loss of connection\<close>

text \<open>
  Once the disconnect modal is visible, only closing it hides it again: no poll tick, no
  notification, no press, no answer to a write and no timeout does.
\<close>

lemma modal_stays:
  "disconnectModalVisible w \<Longrightarrow> e \<noteq> DisconnectModalClosed \<Longrightarrow> disconnectModalVisible (step p e w)"
  by (cases e)
     (simp_all add: pollTick_modal fireFallback_frame monitorCallback_frame
        handleBuzzerPress_frame handleLightPress_frame bluetoothOffEffect_frame
        writeSettled_frame pressBuzzer_def pressLight_def)

lemma run_modal_stays:
  "disconnectModalVisible w \<Longrightarrow> DisconnectModalClosed \<notin> set es \<Longrightarrow> disconnectModalVisible (run p es w)"
proof (induction es arbitrary: w)
  case Nil
  then show ?case by simp
next
  case (Cons e es)
  from Cons.prems have "e \<noteq> DisconnectModalClosed" by auto
  with Cons.prems have "disconnectModalVisible (step p e w)"
    by (simp add: modal_stays)
  with Cons show ?case by simp
qed

lemma lost_count_zero:
  "disconnectModalVisible w \<Longrightarrow> DisconnectModalClosed \<notin> set es \<Longrightarrow> connectionLostCount p es w = 0"
proof (induction es arbitrary: w)
  case Nil
  then show ?case by simp
next
  case (Cons e es)
  from Cons.prems have "e \<noteq> DisconnectModalClosed" by auto
  with Cons.prems have "disconnectModalVisible (step p e w)"
    by (simp add: modal_stays)
  with Cons show ?case
    by (simp add: connectionHealthy_def)
qed

lemma lost_count_le_one:
  "DisconnectModalClosed \<notin> set es \<Longrightarrow> connectionLostCount p es w \<le> 1"
proof (induction es arbitrary: w)
  case Nil
  then show ?case by simp
next
  case (Cons e es)
  show ?case
  proof (cases "connectionHealthy w \<and> \<not> connectionHealthy (step p e w)")
    case True
    then have "connectionLostCount p es (step p e w) = 0"
      using Cons.prems by (simp add: lost_count_zero connectionHealthy_def)
    with True show ?thesis by simp
  next
    case False
    then show ?thesis using Cons by auto
  qed
qed

lemma lost_count_one:
  "DisconnectModalClosed \<notin> set es \<Longrightarrow> \<not> disconnectModalVisible w \<Longrightarrow>
   PollTick r \<in> set es \<Longrightarrow> isBadRead r \<Longrightarrow>
   connectionLostCount p es w = 1 \<and> disconnectModalVisible (run p es w)"
proof (induction es arbitrary: w)
  case Nil
  then show ?case by simp
next
  case (Cons e es)
  show ?case
  proof (cases "disconnectModalVisible (step p e w)")
    case True
    with Cons.prems have "disconnectModalVisible (run p es (step p e w))"
      by (simp add: run_modal_stays)
    moreover from True Cons.prems have "connectionLostCount p es (step p e w) = 0"
      by (simp add: lost_count_zero)
    ultimately show ?thesis
      using True Cons.prems by (simp add: connectionHealthy_def)
  next
    case False
    then have "e \<noteq> PollTick r"
      using Cons.prems(4) by (auto simp: pollTick_modal)
    then have "PollTick r \<in> set es" using Cons.prems(3) by simp
    with Cons.IH [of "step p e w"] False Cons.prems show ?thesis
      by (simp add: connectionHealthy_def)
  qed
qed

text \<open>
  Claim C3. A poll tick whose read fails, returns null or returns a value below -90 leaves
  the connection unhealthy at once (a reading of -95 does), and a numeric reading is
  stored as the current RSSI. In a session, that is a run that goes on until the user
  closes the disconnect modal, the connection is reported lost at most once, and exactly
  once when the run starts healthy and contains such a tick.
\<close>

theorem poll_tick_connection_lost:
  "(isBadRead r \<longrightarrow> \<not> connectionHealthy (pollTick r w))
   \<and> \<not> connectionHealthy (pollTick (ReadValue (Some (-95))) w)
   \<and> currentRssi (pollTick (ReadValue (Some n)) w) = Some n
   \<and> (DisconnectModalClosed \<notin> set es \<longrightarrow> connectionLostCount p es w \<le> 1)
   \<and> (DisconnectModalClosed \<notin> set es \<and> connectionHealthy w \<and> PollTick r \<in> set es \<and> isBadRead r
        \<longrightarrow> connectionLostCount p es w = 1 \<and> \<not> connectionHealthy (run p es w))"
proof -
  have "isBadRead r \<longrightarrow> \<not> connectionHealthy (pollTick r w)"
    by (simp add: connectionHealthy_def pollTick_modal)
  moreover have "\<not> connectionHealthy (pollTick (ReadValue (Some (-95))) w)"
    by (simp add: connectionHealthy_def pollTick_modal)
  moreover have "currentRssi (pollTick (ReadValue (Some n)) w) = Some n"
    by (simp add: Let_def)
  moreover have "DisconnectModalClosed \<notin> set es \<longrightarrow> connectionLostCount p es w \<le> 1"
    using lost_count_le_one [of es p w] by simp
  moreover have "DisconnectModalClosed \<notin> set es \<and> connectionHealthy w \<and> PollTick r \<in> set es \<and> isBadRead r
        \<longrightarrow> connectionLostCount p es w = 1 \<and> \<not> connectionHealthy (run p es w)"
    using lost_count_one [of es w r p] by (simp add: connectionHealthy_def)
  ultimately show ?thesis by blast
qed

theorem poll_tick_connection_lost_witness:
  "isBadRead (ReadValue (Some (-95)))
   \<and> connectionHealthy (initial (Some (-60)))
   \<and> DisconnectModalClosed \<notin> set
        [PollTick (ReadValue (Some (-70))), PollTick (ReadValue (Some (-95))), PollTick ReadFailed,
         PollTick (ReadValue (Some (-50))), PollTick (ReadValue None)]
   \<and> \<not> connectionHealthy (pollTick (ReadValue (Some (-95))) (initial (Some (-60))))
   \<and> currentRssi (pollTick (ReadValue (Some (-95))) (initial (Some (-60)))) = Some (-95)
   \<and> connectionLostCount connected
        [PollTick (ReadValue (Some (-70))), PollTick (ReadValue (Some (-95))), PollTick ReadFailed,
         PollTick (ReadValue (Some (-50))), PollTick (ReadValue None)] (initial (Some (-60))) = 1"
  using poll_tick_connection_lost [of "ReadValue (Some (-95))" "initial (Some (-60))" "-95"
      "[PollTick (ReadValue (Some (-70))), PollTick (ReadValue (Some (-95))), PollTick ReadFailed,
         PollTick (ReadValue (Some (-50))), PollTick (ReadValue None)]" connected]
  by (simp add: connectionHealthy_def initial_def)

section \<open>Notifications\<close>

text \<open>
  Claim C6. The monitor callback decodes the value and compares the text with the four
  tokens BUZZER_ON, BUZZER_OFF, LED_ON and LED_OFF: on a match the actuator's state becomes
  the confirmed value and its loading flag is cleared, nothing else changes; any other
  text, an empty or null value, a missing characteristic and an error leave the state as
  it is, and the callback has no failing branch.
\<close>

theorem monitorCallback_tokens:
  assumes "v \<noteq> []"
  shows "(fromBase64 p v = ''BUZZER_ON'' \<longrightarrow>
            monitorCallback p None (Some (Characteristic (Some v))) w
              = w\<lparr>buzzerState := True, buzzerLoading := False\<rparr>)
     \<and> (fromBase64 p v = ''BUZZER_OFF'' \<longrightarrow>
            monitorCallback p None (Some (Characteristic (Some v))) w
              = w\<lparr>buzzerState := False, buzzerLoading := False\<rparr>)
     \<and> (fromBase64 p v = ''LED_ON'' \<longrightarrow>
            monitorCallback p None (Some (Characteristic (Some v))) w
              = w\<lparr>ledState := True, ledLoading := False\<rparr>)
     \<and> (fromBase64 p v = ''LED_OFF'' \<longrightarrow>
            monitorCallback p None (Some (Characteristic (Some v))) w
              = w\<lparr>ledState := False, ledLoading := False\<rparr>)
     \<and> (fromBase64 p v \<notin> set notificationTokens \<longrightarrow>
            monitorCallback p None (Some (Characteristic (Some v))) w = w)
     \<and> monitorCallback p None (Some (Characteristic (Some []))) w = w
     \<and> monitorCallback p None (Some (Characteristic None)) w = w
     \<and> monitorCallback p None None w = w
     \<and> monitorCallback p (Some e) chr w = w"
  using assms
  by (simp add: monitorCallback_def onResponse_def notificationTokens_def)

theorem monitorCallback_tokens_witness:
  "monitorCallback connected None (Some (Characteristic (Some ''TEVEX09O''))) (initial None)
     = (initial None)\<lparr>ledState := True, ledLoading := False\<rparr>
   \<and> monitorCallback connected None (Some (Characteristic (Some ''QlVaWkVSX09GRg=='')))
        (handleBuzzerPress connected (initial None))
     = (handleBuzzerPress connected (initial None))\<lparr>buzzerState := False, buzzerLoading := False\<rparr>
   \<and> monitorCallback connected None (Some (Characteristic (Some ''aGVsbG8=''))) (initial None)
     = initial None"
proof -
  have d1: "fromBase64 connected ''TEVEX09O'' = ''LED_ON''"
    by code_simp
  have d2: "fromBase64 connected ''QlVaWkVSX09GRg=='' = ''BUZZER_OFF''"
    by code_simp
  have "fromBase64 connected ''aGVsbG8='' = ''hello''"
    by code_simp
  then have d3: "fromBase64 connected ''aGVsbG8='' \<notin> set notificationTokens"
    by (simp add: notificationTokens_def)
  have n1: "''TEVEX09O'' \<noteq> []" and n2: "''QlVaWkVSX09GRg=='' \<noteq> []" and n3: "''aGVsbG8='' \<noteq> []"
    by simp_all
  from monitorCallback_tokens [OF n1, of connected "initial None"] d1
  have "monitorCallback connected None (Some (Characteristic (Some ''TEVEX09O''))) (initial None)
     = (initial None)\<lparr>ledState := True, ledLoading := False\<rparr>"
    by blast
  moreover
  from monitorCallback_tokens [OF n2, of connected "handleBuzzerPress connected (initial None)"] d2
  have "monitorCallback connected None (Some (Characteristic (Some ''QlVaWkVSX09GRg=='')))
        (handleBuzzerPress connected (initial None))
     = (handleBuzzerPress connected (initial None))\<lparr>buzzerState := False, buzzerLoading := False\<rparr>"
    by blast
  moreover
  from monitorCallback_tokens [OF n3, of connected "initial None"] d3
  have "monitorCallback connected None (Some (Characteristic (Some ''aGVsbG8=''))) (initial None)
     = initial None"
    by blast
  ultimately show ?thesis by blast
qed

subsection \<open>Confirmation against the fallback timeout\<close>

lemma onResponse_confirmation:
  "actuatorState a (onResponse (confirmation a b) w) = b"
  "\<not> pending a (onResponse (confirmation a b) w)"
  by (cases a; cases b; simp add: onResponse_def)+

lemma onResponse_undisturbed:
  "t \<noteq> confirmation a (\<not> b) \<Longrightarrow> actuatorState a w = b \<Longrightarrow> \<not> pending a w \<Longrightarrow>
   actuatorState a (onResponse t w) = b \<and> \<not> pending a (onResponse t w)"
  by (cases a; cases b; auto simp: onResponse_def)

lemma step_undisturbed:
  assumes "undisturbed p a b e" and "actuatorState a w = b" and "\<not> pending a w"
  shows "actuatorState a (step p e w) = b \<and> \<not> pending a (step p e w)"
proof (cases e)
  case (Notification err chr)
  show ?thesis
  proof (cases "notified p err chr")
    case None
    with Notification assms show ?thesis by (simp add: monitorCallback_notified)
  next
    case (Some t)
    with Notification assms(1) have "t \<noteq> confirmation a (\<not> b)" by simp
    from onResponse_undisturbed [OF this assms(2,3)] Notification Some show ?thesis
      by (simp add: monitorCallback_notified)
  qed
next
  case (WriteSettled c n r)
  with assms show ?thesis
    by (cases a; cases c; cases r; simp add: writeSettled_frame writeSettled_ok del: writeSettled.simps)
next
  case DisconnectModalClosed
  with assms show ?thesis
    by (cases a; simp add: handleDisconnectModalClose_def)
qed (use assms in \<open>cases a; simp add: pollTick_frame fireFallback_frame bluetoothOffEffect_frame
        handleBuzzerPress_frame handleLightPress_frame pressBuzzer_def pressLight_def\<close>)+

lemma run_undisturbed:
  "list_all (undisturbed p a b) es \<Longrightarrow> actuatorState a w = b \<Longrightarrow> \<not> pending a w \<Longrightarrow>
   actuatorState a (run p es w) = b \<and> \<not> pending a (run p es w)"
proof (induction es arbitrary: w)
  case Nil
  then show ?case by simp
next
  case (Cons e es)
  from Cons.prems have "undisturbed p a b e" by simp
  from step_undisturbed [OF this Cons.prems(2,3)] Cons show ?case by simp
qed

lemma notification_confirms:
  "notified p err chr = Some (confirmation a b) \<Longrightarrow>
   actuatorState a (monitorCallback p err chr w) = b \<and> \<not> pending a (monitorCallback p err chr w)"
  by (simp add: monitorCallback_notified onResponse_confirmation)

text \<open>
  Claim C7, as amended. The notification that confirms a value for an actuator sets the
  actuator's state to that value and clears its pending flag, whatever the state was
  before (the optimistic flip included). When the fallback timeout fires afterwards, and
  no event in between disturbs the confirmation (no press on the actuator's control, no
  notification with the opposite token, no rejected write of the actuator, no closing of
  the disconnect modal while the confirmed value is on), the state is still the confirmed
  value and the actuator is not pending. The fallback timeout clears the pending flag of
  its actuator, leaves the schedule, and changes nothing else, in particular no actuator
  state.
\<close>

theorem confirmation_stands_until_disturbed:
  assumes "notified p err chr = Some (confirmation a b)" and "list_all (undisturbed p a b) es"
  shows "actuatorState a (step p (Notification err chr) w0) = b
     \<and> \<not> pending a (step p (Notification err chr) w0)
     \<and> actuatorState a (run p (pre @ Notification err chr # es @ [FallbackFired a]) w) = b
     \<and> \<not> pending a (run p (pre @ Notification err chr # es @ [FallbackFired a]) w)
     \<and> fallback Buzzer w' = w'\<lparr>buzzerLoading := False\<rparr>
     \<and> fallback LED w' = w'\<lparr>ledLoading := False\<rparr>
     \<and> fireFallback a' w' = (fallback a' w')\<lparr>timeouts := remove1 a' (timeouts w')\<rparr>
     \<and> \<not> pending a' (fireFallback a' w')
     \<and> actuatorState c (fireFallback a' w') = actuatorState c w'"
proof -
  let ?w1 = "monitorCallback p err chr (run p pre w)"
  have confirmed: "actuatorState a ?w1 = b" "\<not> pending a ?w1"
    using notification_confirms [OF assms(1)] by simp_all
  have "actuatorState a (run p es ?w1) = b" "\<not> pending a (run p es ?w1)"
    using run_undisturbed [OF assms(2) confirmed] by simp_all
  then have "actuatorState a (fireFallback a (run p es ?w1)) = b"
    "\<not> pending a (fireFallback a (run p es ?w1))"
    by (simp_all add: fireFallback_pending)
  then have run: "actuatorState a (run p (pre @ Notification err chr # es @ [FallbackFired a]) w) = b"
    "\<not> pending a (run p (pre @ Notification err chr # es @ [FallbackFired a]) w)"
    by (simp_all add: run_append)
  have at_once: "actuatorState a (step p (Notification err chr) w0) = b"
    "\<not> pending a (step p (Notification err chr) w0)"
    using notification_confirms [OF assms(1), of w0] by simp_all
  have timeout: "fireFallback a' w' = (fallback a' w')\<lparr>timeouts := remove1 a' (timeouts w')\<rparr>"
    by (cases a') (simp_all add: fireFallback_def)
  have cleared: "\<not> pending a' (fireFallback a' w')"
    "actuatorState c (fireFallback a' w') = actuatorState c w'"
    by (simp_all add: fireFallback_pending)
  from run at_once timeout cleared show ?thesis
    by simp
qed

theorem confirmation_stands_until_disturbed_witness:
  "notified connected None (Some (Characteristic (Some ''QlVaWkVSX09GRg==''))) = Some (confirmation Buzzer False)
   \<and> list_all (undisturbed connected Buzzer False)
       [WriteSettled Buzzer 0 WriteOk, PollTick (ReadValue (Some (-60))), LightPressed,
        Notification None (Some (Characteristic (Some ''TEVEX09O'')))]
   \<and> actuatorState Buzzer (handleBuzzerPress connected (initial None)) = True
   \<and> actuatorState Buzzer (run connected
      ([BuzzerPressed] @ Notification None (Some (Characteristic (Some ''QlVaWkVSX09GRg==''))) #
       [WriteSettled Buzzer 0 WriteOk, PollTick (ReadValue (Some (-60))), LightPressed,
        Notification None (Some (Characteristic (Some ''TEVEX09O'')))] @ [FallbackFired Buzzer])
      (initial None)) = False
   \<and> \<not> pending Buzzer (run connected
      ([BuzzerPressed] @ Notification None (Some (Characteristic (Some ''QlVaWkVSX09GRg==''))) #
       [WriteSettled Buzzer 0 WriteOk, PollTick (ReadValue (Some (-60))), LightPressed,
        Notification None (Some (Characteristic (Some ''TEVEX09O'')))] @ [FallbackFired Buzzer])
      (initial None))"
proof -
  have h1: "notified connected None (Some (Characteristic (Some ''QlVaWkVSX09GRg=='')))
      = Some (confirmation Buzzer False)"
    by code_simp
  have h2: "list_all (undisturbed connected Buzzer False)
       [WriteSettled Buzzer 0 WriteOk, PollTick (ReadValue (Some (-60))), LightPressed,
        Notification None (Some (Characteristic (Some ''TEVEX09O'')))]"
    by code_simp
  have flip: "actuatorState Buzzer (handleBuzzerPress connected (initial None)) = True"
    by (simp add: handleBuzzerPress_frame initial_def)
  from confirmation_stands_until_disturbed [OF h1 h2, of _ "[BuzzerPressed]" "initial None"] h1 h2 flip
  show ?thesis by blast
qed

text \<open>
  Without that condition the claim fails. The buzzer is pressed, its write is answered and
  the fallback timeout is scheduled; BUZZER_ON confirms the state as on and clears the
  pending flag; the buzzer is pressed again; then the timeout of the first press fires.
  The confirmation came before the timeout, and the state at the end is off.
\<close>

theorem confirmation_overtaken_by_second_press:
  "notified connected None (Some (Characteristic (Some ''QlVaWkVSX09O''))) = Some (confirmation Buzzer True)
   \<and> actuatorState Buzzer (run connected
        [BuzzerPressed, WriteSettled Buzzer 0 WriteOk,
         Notification None (Some (Characteristic (Some ''QlVaWkVSX09O'')))] (initial None)) = True
   \<and> timeouts (run connected
        [BuzzerPressed, WriteSettled Buzzer 0 WriteOk,
         Notification None (Some (Characteristic (Some ''QlVaWkVSX09O'')))] (initial None)) = [Buzzer]
   \<and> actuatorState Buzzer (run connected
        [BuzzerPressed, WriteSettled Buzzer 0 WriteOk,
         Notification None (Some (Characteristic (Some ''QlVaWkVSX09O''))),
         BuzzerPressed, FallbackFired Buzzer] (initial None)) = False"
  by code_simp

text \<open>
  A write that is rejected after its confirmation has arrived overwrites the confirmed
  value too: the \<open>catch\<close> branch sets the state to the opposite of what the press chose.
\<close>

lemma rejected_write_after_confirmation:
  "actuatorState Buzzer (run connected
        [BuzzerPressed, Notification None (Some (Characteristic (Some ''QlVaWkVSX09O''))),
         WriteSettled Buzzer 0 WriteFailed] (initial None)) = False
   \<and> alerts (run connected
        [BuzzerPressed, Notification None (Some (Characteristic (Some ''QlVaWkVSX09O''))),
         WriteSettled Buzzer 0 WriteFailed] (initial None)) = [(''Error'', ''Failed to control buzzer'')]"
  by code_simp

section \<open>Toggle commands\<close>

subsection \<open>A write that fails\<close>

text \<open>
  In \<open>app/search-actions.tsx\<close> a press whose write is rejected ends, when the rejection
  arrives, with the actuator's state as it was before the press, the loading flag
  cleared, one more alert and no timeout scheduled.
\<close>

lemma handlePress_write_failure:
  "connectedDevice p = Some d \<Longrightarrow>
   actuatorState a (writeSettled a (length (awaiting a w)) WriteFailed (handlePress a p w))
     = actuatorState a w
   \<and> \<not> pending a (writeSettled a (length (awaiting a w)) WriteFailed (handlePress a p w))
   \<and> alerts (writeSettled a (length (awaiting a w)) WriteFailed (handlePress a p w))
       = alerts w @ [(''Error'', failureMessage a)]
   \<and> timeouts (writeSettled a (length (awaiting a w)) WriteFailed (handlePress a p w)) = timeouts w"
  by (cases a)
     (simp_all add: handleBuzzerPress_def handleLightPress_def handleBuzzerPress_resume_def
        handleLightPress_resume_def sendToggleCommand_call_def Let_def)

text \<open>
  Claim C1 asks that a failed write reverts the optimistic flip and surfaces one alert.
  The copy of the component without loading flags does neither: starting from the initial
  state with a device connected, a buzzer press (and likewise a light press) whose write
  fails leaves the state flipped to on and shows no alert.
\<close>

theorem part_001_write_failure_not_reverted:
  "buzzerState (initial None) = False
   \<and> buzzerState (handleBuzzerPress_part_001 connected WriteFailed (initial None)) = True
   \<and> alerts (handleBuzzerPress_part_001 connected WriteFailed (initial None)) = []
   \<and> ledState (initial None) = False
   \<and> ledState (handleLightPress_part_001 connected WriteFailed (initial None)) = True
   \<and> alerts (handleLightPress_part_001 connected WriteFailed (initial None)) = []"
  by (simp add: handleBuzzerPress_part_001_def handleLightPress_part_001_def
        sendToggleCommand_part_001_def connected_def initial_def Let_def)

subsection \<open>Presses while the actuator is pending\<close>

lemma onResponse_other:
  "t \<noteq> confirmation a True \<Longrightarrow> t \<noteq> confirmation a False \<Longrightarrow>
   actuatorState a (onResponse t w) = actuatorState a w \<and> pending a (onResponse t w) = pending a w"
  by (cases a; auto simp: onResponse_def)

lemma monitorCallback_other:
  "\<not> clearsPending p a (Notification err chr) \<Longrightarrow>
   actuatorState a (monitorCallback p err chr w) = actuatorState a w
   \<and> pending a (monitorCallback p err chr w) = pending a w"
  by (cases "notified p err chr") (simp_all add: monitorCallback_notified onResponse_other)

lemma toggleWrites_handlePress:
  assumes "toBase64 p ''BUZZ_TOGGLE'' \<noteq> toBase64 p ''LED_TOGGLE''"
  shows "toggleWrites p a (handlePress c p w) =
     toggleWrites p a w @
       (if connectedDevice p \<noteq> None \<and> a = c
        then [(SERVICE_UUID, WRITE_CHARACTERISTIC_UUID, toBase64 p (toggleCommand a))] else [])"
  using assms
  by (cases a; cases c; cases "connectedDevice p")
     (simp_all add: toggleWrites_def handlePress_writes del: handlePress.simps)

lemma handlePress_other:
  "a \<noteq> c \<Longrightarrow> actuatorState a (handlePress c p w) = actuatorState a w"
  "a \<noteq> c \<Longrightarrow> pending a (handlePress c p w) = pending a w"
  "pending c (handlePress c p w)"
  by (cases a; cases c; simp add: handleBuzzerPress_frame handleLightPress_frame)+

lemma step_pressed:
  "step p (pressed c) w = (if pending c w then w else handlePress c p w)"
  by (cases c) (simp_all add: pressBuzzer_def pressLight_def)

lemma step_stays_pending:
  assumes enc: "toBase64 p ''BUZZ_TOGGLE'' \<noteq> toBase64 p ''LED_TOGGLE''"
    and "\<not> clearsPending p a e" and "pending a w"
  shows "pending a (step p e w)"
    and "toggleWrites p a (step p e w) = toggleWrites p a w"
    and "e \<noteq> DisconnectModalClosed \<Longrightarrow> actuatorState a (step p e w) = actuatorState a w"
proof -
  have "pending a (step p e w) \<and> toggleWrites p a (step p e w) = toggleWrites p a w
      \<and> (e \<noteq> DisconnectModalClosed \<longrightarrow> actuatorState a (step p e w) = actuatorState a w)"
  proof (cases e)
    case (PollTick r)
    with assms(3) show ?thesis
      by (cases a) (simp_all add: pollTick_frame toggleWrites_def)
  next
    case (Notification err chr)
    with assms(2,3) monitorCallback_other [of p a err chr w] show ?thesis
      by (simp add: toggleWrites_def monitorCallback_frame)
  next
    case BuzzerPressed
    then have e: "e = pressed Buzzer" by simp
    show ?thesis
      unfolding e step_pressed using assms(3) toggleWrites_handlePress [OF enc, of a Buzzer w]
      by (cases a) (simp_all add: handleBuzzerPress_frame handleLightPress_frame)
  next
    case LightPressed
    then have e: "e = pressed LED" by simp
    show ?thesis
      unfolding e step_pressed using assms(3) toggleWrites_handlePress [OF enc, of a LED w]
      by (cases a) (simp_all add: handleBuzzerPress_frame handleLightPress_frame)
  next
    case (WriteSettled c n r)
    with assms(2,3) show ?thesis
      by (cases a; cases c; cases r;
          simp add: toggleWrites_def writeSettled_frame writeSettled_ok del: writeSettled.simps)
  next
    case (FallbackFired c)
    with assms(2,3) show ?thesis
      by (cases a; cases c; simp add: toggleWrites_def fireFallback_frame)
  next
    case (BluetoothOffChanged x)
    with assms(3) show ?thesis
      by (cases a) (simp_all add: toggleWrites_def bluetoothOffEffect_frame)
  next
    case DisconnectModalClosed
    with assms(3) show ?thesis
      by (cases a) (simp_all add: toggleWrites_def handleDisconnectModalClose_def)
  qed
  then show "pending a (step p e w)"
    and "toggleWrites p a (step p e w) = toggleWrites p a w"
    and "e \<noteq> DisconnectModalClosed \<Longrightarrow> actuatorState a (step p e w) = actuatorState a w"
    by simp_all
qed

lemma run_stays_pending:
  assumes enc: "toBase64 p ''BUZZ_TOGGLE'' \<noteq> toBase64 p ''LED_TOGGLE''"
  shows "\<not> list_ex (clearsPending p a) es \<Longrightarrow> pending a w \<Longrightarrow>
     pending a (run p es w) \<and> toggleWrites p a (run p es w) = toggleWrites p a w
     \<and> (DisconnectModalClosed \<notin> set es \<longrightarrow> actuatorState a (run p es w) = actuatorState a w)"
proof (induction es arbitrary: w)
  case Nil
  then show ?case by simp
next
  case (Cons e es)
  from Cons.prems have e: "\<not> clearsPending p a e" and es: "\<not> list_ex (clearsPending p a) es"
    by simp_all
  note s = step_stays_pending [OF enc e Cons.prems(2)]
  from Cons.IH [OF es s(1)] s(2,3) show ?case by auto
qed

lemma step_toggle_budget:
  assumes enc: "toBase64 p ''BUZZ_TOGGLE'' \<noteq> toBase64 p ''LED_TOGGLE''"
  shows "length (toggleWrites p a (step p e w)) + (if pending a w then 1 else 0)
     \<le> length (toggleWrites p a w) + (if pending a (step p e w) then 1 else 0)
         + (if clearsPending p a e then 1 else 0)"
proof (cases "clearsPending p a e")
  case True
  have "toggleWrites p a (step p e w) = toggleWrites p a w"
    using True
    by (cases e) (simp_all add: toggleWrites_def monitorCallback_frame writeSettled_frame
        fireFallback_frame del: writeSettled.simps)
  with True show ?thesis by simp
next
  case False
  show ?thesis
  proof (cases "pending a w")
    case True
    from step_stays_pending(1,2) [OF enc False True] True show ?thesis by simp
  next
    case notPending: False
    show ?thesis
    proof (cases "e = pressed a")
      case True
      with notPending toggleWrites_handlePress [OF enc, of a a w] show ?thesis
        by (simp add: step_pressed handlePress_other del: handlePress.simps)
    next
      case notPress: False
      have "toggleWrites p a (step p e w) = toggleWrites p a w"
      proof (cases e)
        case BuzzerPressed
        then have e: "e = pressed Buzzer" by simp
        with notPress have "a \<noteq> Buzzer" by auto
        with toggleWrites_handlePress [OF enc, of a Buzzer w] show ?thesis
          unfolding e step_pressed by simp
      next
        case LightPressed
        then have e: "e = pressed LED" by simp
        with notPress have "a \<noteq> LED" by auto
        with toggleWrites_handlePress [OF enc, of a LED w] show ?thesis
          unfolding e step_pressed by simp
      qed (simp_all add: toggleWrites_def pollTick_frame monitorCallback_frame writeSettled_frame
            fireFallback_frame bluetoothOffEffect_frame handleDisconnectModalClose_def
            del: writeSettled.simps)
      with notPending show ?thesis by simp
    qed
  qed
qed

lemma run_toggle_budget:
  assumes enc: "toBase64 p ''BUZZ_TOGGLE'' \<noteq> toBase64 p ''LED_TOGGLE''"
  shows "length (toggleWrites p a (run p es w)) + (if pending a w then 1 else 0)
     \<le> length (toggleWrites p a w) + (if pending a (run p es w) then 1 else 0)
         + length (filter (clearsPending p a) es)"
proof (induction es arbitrary: w)
  case Nil
  show ?case by simp
next
  case (Cons e es)
  from Cons [of "step p e w"] step_toggle_budget [OF enc, of a e w] show ?case
    by (simp split: if_splits)
qed

text \<open>
  Claim C2. While an actuator is pending, a press on its control is rejected: the state
  is what it was, so no write is issued and the actuator's state is not flipped. However
  many presses a run contains, as long as no event clears the actuator's pending flag the
  writes of its command stay the same, the actuator stays pending, and its state stays
  the same unless the disconnect modal is closed. Over any run at all, the writes of an
  actuator's command number at most the events that could clear its pending flag, plus
  one if the actuator is pending at the end and minus one if it was pending at the start:
  between two writes of the command the flag has been cleared. The two commands are
  taken to have different base64 forms.
\<close>

theorem pending_blocks_second_toggle:
  assumes "toBase64 p ''BUZZ_TOGGLE'' \<noteq> toBase64 p ''LED_TOGGLE''"
  shows "(pending a w \<longrightarrow> press a p w = w \<and> step p (pressed a) w = w)
     \<and> (pending a w \<and> \<not> list_ex (clearsPending p a) es \<longrightarrow>
          pending a (run p es w)
          \<and> toggleWrites p a (run p es w) = toggleWrites p a w
          \<and> (DisconnectModalClosed \<notin> set es \<longrightarrow> actuatorState a (run p es w) = actuatorState a w))
     \<and> length (toggleWrites p a (run p es w)) + (if pending a w then 1 else 0)
          \<le> length (toggleWrites p a w) + (if pending a (run p es w) then 1 else 0)
              + length (filter (clearsPending p a) es)"
proof -
  have "pending a w \<longrightarrow> press a p w = w \<and> step p (pressed a) w = w"
    by (cases a) (simp_all add: pressBuzzer_def pressLight_def)
  moreover have "pending a w \<and> \<not> list_ex (clearsPending p a) es \<longrightarrow>
          pending a (run p es w)
          \<and> toggleWrites p a (run p es w) = toggleWrites p a w
          \<and> (DisconnectModalClosed \<notin> set es \<longrightarrow> actuatorState a (run p es w) = actuatorState a w)"
    using run_stays_pending [OF assms, of a es w] by blast
  moreover note run_toggle_budget [OF assms, of a es w]
  ultimately show ?thesis by blast
qed

theorem pending_blocks_second_toggle_witness:
  "toBase64 connected ''BUZZ_TOGGLE'' \<noteq> toBase64 connected ''LED_TOGGLE''
   \<and> pending Buzzer (handleBuzzerPress connected (initial None))
   \<and> \<not> list_ex (clearsPending connected Buzzer)
        [BuzzerPressed, LightPressed, WriteSettled Buzzer 0 WriteOk, BuzzerPressed,
         Notification None (Some (Characteristic (Some ''TEVEX09O''))), BuzzerPressed]
   \<and> length (toggleWrites connected Buzzer (handleBuzzerPress connected (initial None))) = 1
   \<and> toggleWrites connected Buzzer
        (run connected
          [BuzzerPressed, LightPressed, WriteSettled Buzzer 0 WriteOk, BuzzerPressed,
           Notification None (Some (Characteristic (Some ''TEVEX09O''))), BuzzerPressed]
          (handleBuzzerPress connected (initial None)))
       = toggleWrites connected Buzzer (handleBuzzerPress connected (initial None))
   \<and> actuatorState Buzzer
        (run connected
          [BuzzerPressed, LightPressed, WriteSettled Buzzer 0 WriteOk, BuzzerPressed,
           Notification None (Some (Characteristic (Some ''TEVEX09O''))), BuzzerPressed]
          (handleBuzzerPress connected (initial None)))
       = actuatorState Buzzer (handleBuzzerPress connected (initial None))
   \<and> press Buzzer connected (handleBuzzerPress connected (initial None))
       = handleBuzzerPress connected (initial None)"
proof -
  have h1: "toBase64 connected ''BUZZ_TOGGLE'' \<noteq> toBase64 connected ''LED_TOGGLE''"
    by code_simp
  have h2: "pending Buzzer (handleBuzzerPress connected (initial None))"
    by (simp add: handleBuzzerPress_frame)
  have h3: "\<not> list_ex (clearsPending connected Buzzer)
        [BuzzerPressed, LightPressed, WriteSettled Buzzer 0 WriteOk, BuzzerPressed,
         Notification None (Some (Characteristic (Some ''TEVEX09O''))), BuzzerPressed]"
    by code_simp
  have h4: "DisconnectModalClosed \<notin> set
        [BuzzerPressed, LightPressed, WriteSettled Buzzer 0 WriteOk, BuzzerPressed,
         Notification None (Some (Characteristic (Some ''TEVEX09O''))), BuzzerPressed]"
    by simp
  have one: "length (toggleWrites connected Buzzer (handleBuzzerPress connected (initial None))) = 1"
    by code_simp
  from pending_blocks_second_toggle [OF h1, of Buzzer "handleBuzzerPress connected (initial None)"
      "[BuzzerPressed, LightPressed, WriteSettled Buzzer 0 WriteOk, BuzzerPressed,
         Notification None (Some (Characteristic (Some ''TEVEX09O''))), BuzzerPressed]"]
    h1 h2 h3 h4 one
  show ?thesis by blast
qed

subsection \<open>What sendToggleCommand checks\<close>

text \<open>
  Claim C5, as amended. \<open>sendToggleCommand\<close> checks the device handle and nothing else.
  Without a handle it shows one "Device not connected" alert, issues no write and
  schedules nothing. With a handle it issues the write to the write characteristic and
  shows no alert, whether or not the connection counts as healthy.
\<close>

theorem sendToggleCommand_checks_handle_only:
  "(connectedDevice p = None \<longrightarrow>
      fst (sendToggleCommand p r command w)
        = w\<lparr>alerts := alerts w @ [(''Error'', ''Device not connected'')]\<rparr>
      \<and> writes (fst (sendToggleCommand p r command w)) = writes w
      \<and> timeouts (fst (sendToggleCommand p r command w)) = timeouts w)
   \<and> (connectedDevice p \<noteq> None \<longrightarrow>
      fst (sendToggleCommand p r command w)
        = w\<lparr>writes := writes w @ [(SERVICE_UUID, WRITE_CHARACTERISTIC_UUID, toBase64 p command)]\<rparr>
      \<and> alerts (fst (sendToggleCommand p r command w)) = alerts w)"
  by (auto simp: sendToggleCommand_def sendToggleCommand_call_def Let_def)

theorem sendToggleCommand_checks_handle_only_witness:
  "connectedDevice unconnected = None
   \<and> alerts (fst (sendToggleCommand unconnected WriteOk ''LED_TOGGLE'' (initial None)))
       = [(''Error'', ''Device not connected'')]
   \<and> writes (fst (sendToggleCommand unconnected WriteOk ''LED_TOGGLE'' (initial None))) = []
   \<and> connectedDevice connected \<noteq> None
   \<and> \<not> connectionHealthy (pollTick ReadFailed (initial None))
   \<and> writes (fst (sendToggleCommand connected WriteOk ''LED_TOGGLE'' (pollTick ReadFailed (initial None))))
       = [(SERVICE_UUID, WRITE_CHARACTERISTIC_UUID, ''TEVEX1RPR0dMRQ=='')]"
proof -
  have enc: "toBase64 connected ''LED_TOGGLE'' = ''TEVEX1RPR0dMRQ==''"
    by code_simp
  have dev: "connectedDevice unconnected = None" "connectedDevice connected \<noteq> None"
    by (simp_all add: connected_def unconnected_def)
  from sendToggleCommand_checks_handle_only [of unconnected WriteOk "''LED_TOGGLE''" "initial None"]
    sendToggleCommand_checks_handle_only
      [of connected WriteOk "''LED_TOGGLE''" "pollTick ReadFailed (initial None)"]
    enc dev
  show ?thesis
    by (simp add: initial_def connectionHealthy_def)
qed

text \<open>
  With a device connected and the connection already reported lost, the command is written
  all the same and the call returns normally; without a device the call returns normally
  too.
\<close>

theorem sendToggleCommand_ignores_health:
  "\<not> connectionHealthy (pollTick ReadFailed (initial None))
   \<and> writes (fst (sendToggleCommand connected WriteOk ''BUZZ_TOGGLE'' (pollTick ReadFailed (initial None))))
       = [(SERVICE_UUID, WRITE_CHARACTERISTIC_UUID, ''QlVaWl9UT0dHTEU='')]
   \<and> alerts (fst (sendToggleCommand connected WriteOk ''BUZZ_TOGGLE'' (pollTick ReadFailed (initial None)))) = []
   \<and> snd (sendToggleCommand connected WriteOk ''BUZZ_TOGGLE'' (pollTick ReadFailed (initial None))) = Inr ()
   \<and> snd (sendToggleCommand unconnected WriteOk ''BUZZ_TOGGLE'' (initial None)) = Inr ()"
proof -
  have enc: "toBase64 connected ''BUZZ_TOGGLE'' = ''QlVaWl9UT0dHTEU=''"
    by code_simp
  have dev: "connectedDevice unconnected = None" "connectedDevice connected = Some (Device ''tag'')"
    by (simp_all add: connected_def unconnected_def)
  from enc dev show ?thesis
    by (simp add: sendToggleCommand_def sendToggleCommand_call_def initial_def
          connectionHealthy_def Let_def)
qed

subsection \<open>A press without a device\<close>

lemma step_keepsPending:
  "keepsPending a e \<Longrightarrow> pending a w \<Longrightarrow>
   pending a (step p e w) \<and> actuatorState a (step p e w) = actuatorState a w"
proof (cases e)
  case (WriteSettled c n r)
  assume "keepsPending a e" "pending a w"
  with WriteSettled show ?thesis
    by (cases a; cases c; cases r; simp add: writeSettled_frame writeSettled_ok del: writeSettled.simps)
qed (cases a; simp add: pollTick_frame fireFallback_frame bluetoothOffEffect_frame
        handleBuzzerPress_frame handleLightPress_frame pressBuzzer_def pressLight_def)+

lemma run_keepsPending:
  "list_all (keepsPending a) es \<Longrightarrow> pending a w \<Longrightarrow>
   pending a (run p es w) \<and> actuatorState a (run p es w) = actuatorState a w"
proof (induction es arbitrary: w)
  case Nil
  then show ?case by simp
next
  case (Cons e es)
  then have "pending a (step p e w) \<and> actuatorState a (step p e w) = actuatorState a w"
    by (simp add: step_keepsPending)
  with Cons show ?case by simp
qed

lemma handlePress_no_device:
  "connectedDevice p = None \<Longrightarrow>
   actuatorState a (handlePress a p w) = (\<not> actuatorState a w)
   \<and> pending a (handlePress a p w)
   \<and> writes (handlePress a p w) = writes w
   \<and> alerts (handlePress a p w) = alerts w @ [(''Error'', ''Device not connected'')]
   \<and> timeouts (handlePress a p w) = timeouts w @ [a]"
  by (cases a)
     (simp_all add: handleBuzzerPress_def handleLightPress_def handleBuzzerPress_resume_def
        handleLightPress_resume_def sendToggleCommand_call_def Let_def)

text \<open>
  Claim C9. Without a device \<open>sendToggleCommand\<close> shows the alert and returns normally, so
  the press handler takes its success branch: the state stays flipped, the actuator is
  pending, nothing is written, the only alert is "Device not connected" and the fallback
  timeout is scheduled. The actuator stays pending and flipped through every event that
  is not its fallback timeout (nor a notification, nor a rejected write of the actuator,
  nor the closing of the disconnect modal); when the fallback timeout fires the pending
  flag is cleared and the state is still the flipped one.
\<close>

theorem press_without_device_keeps_flip:
  assumes "connectedDevice p = None"
  shows "sendToggleCommand p r (toggleCommand a) w
           = (w\<lparr>alerts := alerts w @ [(''Error'', ''Device not connected'')]\<rparr>, Inr ())
     \<and> actuatorState a (handlePress a p w) = (\<not> actuatorState a w)
     \<and> pending a (handlePress a p w)
     \<and> writes (handlePress a p w) = writes w
     \<and> alerts (handlePress a p w) = alerts w @ [(''Error'', ''Device not connected'')]
     \<and> timeouts (handlePress a p w) = timeouts w @ [a]
     \<and> awaiting a (handlePress a p w) = awaiting a w
     \<and> (list_all (keepsPending a) es \<longrightarrow>
          pending a (run p es (handlePress a p w))
          \<and> actuatorState a (run p es (handlePress a p w)) = (\<not> actuatorState a w)
          \<and> \<not> pending a (run p (es @ [FallbackFired a]) (handlePress a p w))
          \<and> actuatorState a (run p (es @ [FallbackFired a]) (handlePress a p w))
              = (\<not> actuatorState a w))"
proof -
  have first: "sendToggleCommand p r (toggleCommand a) w
           = (w\<lparr>alerts := alerts w @ [(''Error'', ''Device not connected'')]\<rparr>, Inr ())"
    using assms by (simp add: sendToggleCommand_def sendToggleCommand_call_def)
  note after = handlePress_no_device [OF assms, of a w]
  have none: "awaiting a (handlePress a p w) = awaiting a w"
    using assms
    by (cases a)
       (simp_all add: handleBuzzerPress_def handleLightPress_def handleBuzzerPress_resume_def
          handleLightPress_resume_def sendToggleCommand_call_def Let_def)
  have later: "pending a (run p es (handlePress a p w))
       \<and> actuatorState a (run p es (handlePress a p w)) = (\<not> actuatorState a w)
       \<and> \<not> pending a (run p (es @ [FallbackFired a]) (handlePress a p w))
       \<and> actuatorState a (run p (es @ [FallbackFired a]) (handlePress a p w)) = (\<not> actuatorState a w)"
    if "list_all (keepsPending a) es"
    using run_keepsPending [OF that, of "handlePress a p w" p] after
    by (simp add: run_append fireFallback_pending)
  from first after none later show ?thesis by blast
qed

theorem press_without_device_keeps_flip_witness:
  "connectedDevice unconnected = None
   \<and> list_all (keepsPending Buzzer)
        [PollTick (ReadValue (Some (-60))), BuzzerPressed, FallbackFired LED]
   \<and> actuatorState Buzzer (handlePress Buzzer unconnected (initial None))
   \<and> pending Buzzer
        (run unconnected [PollTick (ReadValue (Some (-60))), BuzzerPressed, FallbackFired LED]
          (handlePress Buzzer unconnected (initial None)))
   \<and> \<not> pending Buzzer
        (run unconnected
          ([PollTick (ReadValue (Some (-60))), BuzzerPressed, FallbackFired LED]
             @ [FallbackFired Buzzer])
          (handlePress Buzzer unconnected (initial None)))
   \<and> actuatorState Buzzer
        (run unconnected
          ([PollTick (ReadValue (Some (-60))), BuzzerPressed, FallbackFired LED]
             @ [FallbackFired Buzzer])
          (handlePress Buzzer unconnected (initial None)))"
proof -
  have h: "connectedDevice unconnected = None" by (simp add: unconnected_def)
  have q: "list_all (keepsPending Buzzer)
        [PollTick (ReadValue (Some (-60))), BuzzerPressed, FallbackFired LED]"
    by simp
  have i: "\<not> actuatorState Buzzer (initial None)" by (simp add: initial_def)
  from press_without_device_keeps_flip [OF h, of WriteOk Buzzer "initial None"
      "[PollTick (ReadValue (Some (-60))), BuzzerPressed, FallbackFired LED]"] h q i
  show ?thesis by blast
qed

section \<open>Teardown\<close>

lemma unmount_effects:
  "unmount p (unmount p w) = unmount p w"
  "connectedDevice p = Some d \<Longrightarrow> \<not> pollingInterval (unmount p w)"
  "monitorSubscription (unmount p w) = monitorSubscription w"
  by (simp_all add: unmount_def pollingCleanup_def split: option.splits)

text \<open>
  Claim C8 asks that teardown cancels the polling timer and the notification subscription
  together. Mounting with a device registers both; unmounting clears the interval and
  leaves the monitor subscribed, since the notification effect returns no cleanup. A
  second unmount changes nothing more.
\<close>

theorem unmount_leaves_monitor_subscribed:
  "pollingInterval (mount connected False MonitorOk (initial None))
   \<and> monitorSubscription (mount connected False MonitorOk (initial None))
   \<and> \<not> pollingInterval (unmount connected (mount connected False MonitorOk (initial None)))
   \<and> monitorSubscription (unmount connected (mount connected False MonitorOk (initial None)))
   \<and> unmount connected (unmount connected (mount connected False MonitorOk (initial None)))
       = unmount connected (mount connected False MonitorOk (initial None))"
  by (simp add: mount_def unmount_def pollingEffect_def pollingCleanup_def notificationEffect_def
        bluetoothOffEffect_def connected_def initial_def)

end
